theory Spec2Isabelle
  imports Complex_Main
begin

section \<open>JavaScript numbers\<close>

text \<open>
  The component computes with JavaScript numbers. A number is modelled as a finite
  real, one of the two infinities, or NaN. Rounding, overflow of finite results and the
  sign of zero are not modelled: a finite result is the exact real, and a zero divisor
  counts as positive zero (the only zero divisors the component can produce, a sum of two
  square roots and \<open>velocity + 1\<close>, are positive zeros). What is modelled is what
  the properties below depend on: a division by zero gives an infinity or NaN instead of
  failing, and NaN propagates through every later operation.
\<close>

datatype number = Fin real | PosInfinity | NegInfinity | NaN

instantiation number :: "{plus, minus, times, inverse}"
begin

fun plus_number :: "number \<Rightarrow> number \<Rightarrow> number" where
  "plus_number NaN b = NaN"
| "plus_number a NaN = NaN"
| "plus_number (Fin a) (Fin b) = Fin (a + b)"
| "plus_number PosInfinity NegInfinity = NaN"
| "plus_number NegInfinity PosInfinity = NaN"
| "plus_number PosInfinity b = PosInfinity"
| "plus_number a PosInfinity = PosInfinity"
| "plus_number NegInfinity b = NegInfinity"
| "plus_number a NegInfinity = NegInfinity"

fun minus_number :: "number \<Rightarrow> number \<Rightarrow> number" where
  "minus_number NaN b = NaN"
| "minus_number a NaN = NaN"
| "minus_number (Fin a) (Fin b) = Fin (a - b)"
| "minus_number PosInfinity PosInfinity = NaN"
| "minus_number NegInfinity NegInfinity = NaN"
| "minus_number PosInfinity b = PosInfinity"
| "minus_number a NegInfinity = PosInfinity"
| "minus_number NegInfinity b = NegInfinity"
| "minus_number a PosInfinity = NegInfinity"

fun times_number :: "number \<Rightarrow> number \<Rightarrow> number" where
  "times_number NaN b = NaN"
| "times_number a NaN = NaN"
| "times_number (Fin a) (Fin b) = Fin (a * b)"
| "times_number PosInfinity (Fin b) =
     (if b = 0 then NaN else if 0 < b then PosInfinity else NegInfinity)"
| "times_number NegInfinity (Fin b) =
     (if b = 0 then NaN else if 0 < b then NegInfinity else PosInfinity)"
| "times_number (Fin a) PosInfinity =
     (if a = 0 then NaN else if 0 < a then PosInfinity else NegInfinity)"
| "times_number (Fin a) NegInfinity =
     (if a = 0 then NaN else if 0 < a then NegInfinity else PosInfinity)"
| "times_number PosInfinity PosInfinity = PosInfinity"
| "times_number PosInfinity NegInfinity = NegInfinity"
| "times_number NegInfinity PosInfinity = NegInfinity"
| "times_number NegInfinity NegInfinity = PosInfinity"

fun divide_number :: "number \<Rightarrow> number \<Rightarrow> number" where
  "divide_number NaN b = NaN"
| "divide_number a NaN = NaN"
| "divide_number (Fin a) (Fin b) =
     (if b = 0 then (if a = 0 then NaN else if 0 < a then PosInfinity else NegInfinity)
      else Fin (a / b))"
| "divide_number (Fin a) PosInfinity = Fin 0"
| "divide_number (Fin a) NegInfinity = Fin 0"
| "divide_number PosInfinity (Fin b) = (if b < 0 then NegInfinity else PosInfinity)"
| "divide_number NegInfinity (Fin b) = (if b < 0 then PosInfinity else NegInfinity)"
| "divide_number PosInfinity PosInfinity = NaN"
| "divide_number PosInfinity NegInfinity = NaN"
| "divide_number NegInfinity PosInfinity = NaN"
| "divide_number NegInfinity NegInfinity = NaN"

definition inverse_number :: "number \<Rightarrow> number" where
  "inverse_number a = divide (Fin 1) a"

instance ..

end

text \<open>The comparison \<open>a < b\<close>: false as soon as one side is NaN.\<close>

fun js_lt :: "number \<Rightarrow> number \<Rightarrow> bool" where
  "js_lt NaN b = False"
| "js_lt a NaN = False"
| "js_lt (Fin a) (Fin b) = (a < b)"
| "js_lt a NegInfinity = False"
| "js_lt PosInfinity b = False"
| "js_lt NegInfinity b = True"
| "js_lt a PosInfinity = True"

fun Math_sqrt :: "number \<Rightarrow> number" where
  "Math_sqrt (Fin a) = (if a < 0 then NaN else Fin (sqrt a))"
| "Math_sqrt PosInfinity = PosInfinity"
| "Math_sqrt NegInfinity = NaN"
| "Math_sqrt NaN = NaN"

fun Math_floor :: "number \<Rightarrow> number" where
  "Math_floor (Fin a) = Fin (of_int \<lfloor>a\<rfloor>)"
| "Math_floor PosInfinity = PosInfinity"
| "Math_floor NegInfinity = NegInfinity"
| "Math_floor NaN = NaN"

fun Math_max :: "number \<Rightarrow> number \<Rightarrow> number" where
  "Math_max NaN b = NaN"
| "Math_max a NaN = NaN"
| "Math_max (Fin a) (Fin b) = Fin (max a b)"
| "Math_max PosInfinity b = PosInfinity"
| "Math_max a PosInfinity = PosInfinity"
| "Math_max NegInfinity b = b"
| "Math_max a NegInfinity = a"

definition Math_PI :: number where
  "Math_PI = Fin pi"

definition isFinite :: "number \<Rightarrow> bool" where
  "isFinite a = (case a of Fin r \<Rightarrow> True | _ \<Rightarrow> False)"

section \<open>Data of the component\<close>

text \<open>
  Modelled from the spec: \<open>Point\<close> (point.js is not among the sources). A point holds its
  coordinates and the clock reading at its creation; \<open>new Point(x, y)\<close> stamps the
  current time, which the model passes in as \<open>now\<close>.
\<close>

record point =
  pt_x :: number
  pt_y :: number
  pt_time :: int

definition Point :: "number \<Rightarrow> number \<Rightarrow> int \<Rightarrow> point" where
  "Point px py now = \<lparr>pt_x = px, pt_y = py, pt_time = now\<rparr>"

text \<open>
  Modelled from the spec: \<open>Bezier\<close> (bezier.js is not among the sources), the four points
  handed to \<open>new Bezier(startPoint, control1, control2, endPoint)\<close>.
\<close>

record bezier =
  startPoint :: point
  control1 :: point
  control2 :: point
  endPoint :: point

definition Bezier :: "point \<Rightarrow> point \<Rightarrow> point \<Rightarrow> point \<Rightarrow> bezier" where
  "Bezier p0 p1 p2 p3 = \<lparr>startPoint = p0, control1 = p1, control2 = p2, endPoint = p3\<rparr>"

text \<open>
  The two methods of the missing modules that index.js calls are parameters of the model:
  \<open>velocityFrom ext e s\<close> is \<open>e.velocityFrom(s)\<close> and \<open>bezierLength ext c\<close> is
  \<open>c.length()\<close>.
\<close>

record ext =
  velocityFrom :: "point \<Rightarrow> point \<Rightarrow> number"
  bezierLength :: "bezier \<Rightarrow> number"

text \<open>
  A pointer event as the stroke methods read it: \<open>clientX\<close> and \<open>clientY\<close>, together with
  what the environment answers while the event is handled: the canvas rectangle of
  \<open>getBoundingClientRect()\<close> and the clock.
\<close>

record event =
  clientX :: number
  clientY :: number
  rectLeft :: number
  rectTop :: number
  dateNow :: int

datatype dot_size = DotNumber number | DotFunction "number \<Rightarrow> number \<Rightarrow> number"

record props =
  velocityFilterWeight :: number
  minWidth :: number
  maxWidth :: number
  dotSize :: dot_size
  penColor :: string
  backgroundColor :: string

definition defaultProps :: props where
  "defaultProps =
     \<lparr>velocityFilterWeight = Fin 0.7,
      minWidth = Fin 0.5,
      maxWidth = Fin 2.5,
      dotSize = DotFunction (\<lambda>minW maxW. (minW + maxW) / Fin 2),
      penColor = ''black'',
      backgroundColor = ''rgba(0,0,0,0)''\<rparr>"

text \<open>
  What the component does to the outside, in order: the calls on the 2D context and the
  two callbacks.
\<close>

datatype effect =
    SetFillStyle string
  | BeginPath
  | MoveTo number number
  | Arc number number number number number bool
  | ClosePath
  | Fill
  | OnBegin event
  | OnEnd event

text \<open>The instance fields the stroke methods read and write, and the effects so far.\<close>

record state =
  points :: "point list"
  lastVelocity :: number
  lastWidth :: number
  isEmpty :: bool
  trace :: "effect list"

definition emit :: "effect \<Rightarrow> state \<Rightarrow> state" where
  "emit e st = st\<lparr>trace := trace st @ [e]\<rparr>"

section \<open>The stroke methods\<close>

definition reset :: "props \<Rightarrow> state \<Rightarrow> state" where
  "reset ps st =
     emit (SetFillStyle (penColor ps))
       (st\<lparr>points := [],
           lastVelocity := Fin 0,
           lastWidth := (minWidth ps + maxWidth ps) / Fin 2\<rparr>)"

definition createPoint :: "event \<Rightarrow> point" where
  "createPoint ev = Point (clientX ev - rectLeft ev) (clientY ev - rectTop ev) (dateNow ev)"

record controls =
  c1 :: point
  c2 :: point

definition calculateCurveControlPoints :: "int \<Rightarrow> point \<Rightarrow> point \<Rightarrow> point \<Rightarrow> controls" where
  "calculateCurveControlPoints now s1 s2 s3 =
     (let dx1 = pt_x s1 - pt_x s2; dy1 = pt_y s1 - pt_y s2;
          dx2 = pt_x s2 - pt_x s3; dy2 = pt_y s2 - pt_y s3;
          m1x = (pt_x s1 + pt_x s2) / Fin 2; m1y = (pt_y s1 + pt_y s2) / Fin 2;
          m2x = (pt_x s2 + pt_x s3) / Fin 2; m2y = (pt_y s2 + pt_y s3) / Fin 2;
          l1 = Math_sqrt (dx1 * dx1 + dy1 * dy1);
          l2 = Math_sqrt (dx2 * dx2 + dy2 * dy2);
          dxm = m1x - m2x;
          dym = m1y - m2y;
          k = l2 / (l1 + l2);
          cmx = m2x + dxm * k; cmy = m2y + dym * k;
          tx = pt_x s2 - cmx;
          ty = pt_y s2 - cmy
      in \<lparr>c1 = Point (m1x + tx) (m1y + ty) now,
          c2 = Point (m2x + tx) (m2y + ty) now\<rparr>)"

definition strokeWidth :: "props \<Rightarrow> number \<Rightarrow> number" where
  "strokeWidth ps velocity = Math_max (maxWidth ps / (velocity + Fin 1)) (minWidth ps)"

definition drawPoint :: "number \<Rightarrow> number \<Rightarrow> number \<Rightarrow> state \<Rightarrow> state" where
  "drawPoint px py size' st =
     (emit (Arc px py size' (Fin 0) (Fin 2 * Math_PI) False) (emit (MoveTo px py) st))
       \<lparr>isEmpty := False\<rparr>"

text \<open>One pass through the body of the loop of \<open>_drawCurve\<close>, at counter \<open>i\<close>.\<close>

definition drawStep ::
  "bezier \<Rightarrow> number \<Rightarrow> number \<Rightarrow> number \<Rightarrow> nat \<Rightarrow> state \<Rightarrow> state" where
  "drawStep curve startWidth widthDelta drawSteps i st =
     (let t = Fin (real i) / drawSteps;
          tt = t * t;
          ttt = tt * t;
          u = Fin 1 - t;
          uu = u * u;
          uuu = uu * u;
          px = uuu * pt_x (startPoint curve);
          px = px + Fin 3 * uu * t * pt_x (control1 curve);
          px = px + Fin 3 * u * tt * pt_x (control2 curve);
          px = px + ttt * pt_x (endPoint curve);
          py = uuu * pt_y (startPoint curve);
          py = py + Fin 3 * uu * t * pt_y (control1 curve);
          py = py + Fin 3 * u * tt * pt_y (control2 curve);
          py = py + ttt * pt_y (endPoint curve);
          width = startWidth + ttt * widthDelta
      in drawPoint px py width st)"

text \<open>
  The loop \<open>for (i = 0; i < drawSteps; i++)\<close>. It does not end when \<open>drawSteps\<close> is
  \<open>Infinity\<close>, so it is a partial function: not returning is \<open>None\<close>.
\<close>

partial_function (option) drawLoop ::
  "bezier \<Rightarrow> number \<Rightarrow> number \<Rightarrow> number \<Rightarrow> nat \<Rightarrow> state \<Rightarrow> state option" where
  "drawLoop curve startWidth widthDelta drawSteps i st =
     (if js_lt (Fin (real i)) drawSteps
      then drawLoop curve startWidth widthDelta drawSteps (Suc i)
             (drawStep curve startWidth widthDelta drawSteps i st)
      else Some st)"

declare drawLoop.simps [code]

definition drawCurve :: "ext \<Rightarrow> bezier \<Rightarrow> number \<Rightarrow> number \<Rightarrow> state \<Rightarrow> state option" where
  "drawCurve ex curve startWidth endWidth st =
     (let widthDelta = endWidth - startWidth;
          drawSteps = Math_floor (bezierLength ex curve)
      in case drawLoop curve startWidth widthDelta drawSteps 0 (emit BeginPath st) of
           None \<Rightarrow> None
         | Some st' \<Rightarrow> Some (emit Fill (emit ClosePath st')))"

definition addCurve :: "ext \<Rightarrow> props \<Rightarrow> bezier \<Rightarrow> state \<Rightarrow> state option" where
  "addCurve ex ps curve st =
     (let velocity = velocityFrom ex (endPoint curve) (startPoint curve);
          velocity = velocityFilterWeight ps * velocity
                     + (Fin 1 - velocityFilterWeight ps) * lastVelocity st;
          newWidth = strokeWidth ps velocity
      in case drawCurve ex curve (lastWidth st) newWidth st of
           None \<Rightarrow> None
         | Some st' \<Rightarrow> Some (st'\<lparr>lastVelocity := velocity, lastWidth := newWidth\<rparr>))"

text \<open>
  \<open>_addPoint\<close>: \<open>push\<close> appends, \<open>unshift\<close> prepends, \<open>shift\<close> drops the first element. The
  indices 0 to 3 are read only where the array holds at least four points.
\<close>

definition addPoint :: "ext \<Rightarrow> props \<Rightarrow> int \<Rightarrow> point \<Rightarrow> state \<Rightarrow> state option" where
  "addPoint ex ps now p st =
     (let pts = points st @ [p] in
      if length pts > 2 then
        (let pts = (if length pts = 3 then (pts ! 0) # pts else pts);
             tmp = calculateCurveControlPoints now (pts ! 0) (pts ! 1) (pts ! 2);
             tmp' = calculateCurveControlPoints now (pts ! 1) (pts ! 2) (pts ! 3);
             curve = Bezier (pts ! 1) (c2 tmp) (c1 tmp') (pts ! 2)
         in case addCurve ex ps curve (st\<lparr>points := pts\<rparr>) of
              None \<Rightarrow> None
            | Some st' \<Rightarrow> Some (st'\<lparr>points := tl (points st')\<rparr>))
      else Some (st\<lparr>points := pts\<rparr>))"

definition strokeUpdate :: "ext \<Rightarrow> props \<Rightarrow> event \<Rightarrow> state \<Rightarrow> state option" where
  "strokeUpdate ex ps ev st = addPoint ex ps (dateNow ev) (createPoint ev) st"

definition strokeBegin :: "ext \<Rightarrow> props \<Rightarrow> event \<Rightarrow> state \<Rightarrow> state option" where
  "strokeBegin ex ps ev st =
     (case strokeUpdate ex ps ev (reset ps st) of
        None \<Rightarrow> None
      | Some st' \<Rightarrow> Some (emit (OnBegin ev) st'))"

definition dotSizeOf :: "props \<Rightarrow> number" where
  "dotSizeOf ps =
     (case dotSize ps of
        DotFunction f \<Rightarrow> f (minWidth ps) (maxWidth ps)
      | DotNumber d \<Rightarrow> d)"

definition strokeDraw :: "props \<Rightarrow> point \<Rightarrow> state \<Rightarrow> state" where
  "strokeDraw ps p st =
     emit Fill (emit ClosePath (drawPoint (pt_x p) (pt_y p) (dotSizeOf ps) (emit BeginPath st)))"

text \<open>
  \<open>_strokeEnd\<close>: \<open>this.points[0]\<close> is \<open>undefined\<close>, which is falsy, on an empty array and
  a point object, which is truthy, otherwise.
\<close>

definition strokeEnd :: "props \<Rightarrow> event \<Rightarrow> state \<Rightarrow> state" where
  "strokeEnd ps ev st =
     (let canDrawCurve = length (points st) > 2;
          pt = (case points st of [] \<Rightarrow> None | p # rest \<Rightarrow> Some p)
      in emit (OnEnd ev)
           (case pt of
              Some p \<Rightarrow> if \<not> canDrawCurve then strokeDraw ps p st else st
            | None \<Rightarrow> st))"

text \<open>A session of the input adapter: stroke methods called one after the other.\<close>

datatype call = Begin event | Update event | End event

fun step :: "ext \<Rightarrow> props \<Rightarrow> call \<Rightarrow> state \<Rightarrow> state option" where
  "step ex ps (Begin ev) st = strokeBegin ex ps ev st"
| "step ex ps (Update ev) st = strokeUpdate ex ps ev st"
| "step ex ps (End ev) st = Some (strokeEnd ps ev st)"

fun run :: "ext \<Rightarrow> props \<Rightarrow> call list \<Rightarrow> state \<Rightarrow> state option" where
  "run ex ps [] st = Some st"
| "run ex ps (c # cs) st =
     (case step ex ps c st of None \<Rightarrow> None | Some st' \<Rightarrow> run ex ps cs st')"


section \<open>Notions of the specification\<close>

text \<open>
  The length of the segment between two samples and the blend factor \<open>k = l2 / (l1 + l2)\<close>
  of three samples, with the operations in the order in which
  \<open>_calculateCurveControlPoints\<close> applies them.
\<close>

definition segment_length :: "point \<Rightarrow> point \<Rightarrow> number" where
  "segment_length p q =
     Math_sqrt ((pt_x p - pt_x q) * (pt_x p - pt_x q) + (pt_y p - pt_y q) * (pt_y p - pt_y q))"

definition blend_factor :: "point \<Rightarrow> point \<Rightarrow> point \<Rightarrow> number" where
  "blend_factor s1 s2 s3 =
     segment_length s2 s3 / (segment_length s1 s2 + segment_length s2 s3)"

text \<open>
  The cubic Bernstein blend of four coordinates at parameter \<open>t\<close>, with the products in the
  order in which \<open>_drawCurve\<close> forms them.
\<close>

definition cubic :: "number \<Rightarrow> number \<Rightarrow> number \<Rightarrow> number \<Rightarrow> number \<Rightarrow> number" where
  "cubic t p0 p1 p2 p3 =
     (Fin 1 - t) * (Fin 1 - t) * (Fin 1 - t) * p0
     + Fin 3 * ((Fin 1 - t) * (Fin 1 - t)) * t * p1
     + Fin 3 * (Fin 1 - t) * (t * t) * p2
     + t * t * t * p3"

definition curve_x :: "bezier \<Rightarrow> number \<Rightarrow> number" where
  "curve_x curve t =
     cubic t (pt_x (startPoint curve)) (pt_x (control1 curve))
       (pt_x (control2 curve)) (pt_x (endPoint curve))"

definition curve_y :: "bezier \<Rightarrow> number \<Rightarrow> number" where
  "curve_y curve t =
     cubic t (pt_y (startPoint curve)) (pt_y (control1 curve))
       (pt_y (control2 curve)) (pt_y (endPoint curve))"

text \<open>
  The curve \<open>_addPoint\<close> builds from a window \<open>w\<close> of at least four points:
  \<open>Curve(w[1], c2, c1, w[2])\<close>, with \<open>c2\<close> solved from \<open>(w[0], w[1], w[2])\<close> and \<open>c1\<close> from
  \<open>(w[1], w[2], w[3])\<close>.
\<close>

definition window_curve :: "int \<Rightarrow> point list \<Rightarrow> bezier" where
  "window_curve now w =
     Bezier (w ! 1) (c2 (calculateCurveControlPoints now (w ! 0) (w ! 1) (w ! 2)))
       (c1 (calculateCurveControlPoints now (w ! 1) (w ! 2) (w ! 3))) (w ! 2)"

text \<open>
  The smoothed velocity of a curve:
  \<open>weight * velocity_raw + (1 - weight) * velocity_previous\<close>.
\<close>

definition smoothed :: "ext \<Rightarrow> props \<Rightarrow> bezier \<Rightarrow> number \<Rightarrow> number" where
  "smoothed ex ps curve previous =
     velocityFilterWeight ps * velocityFrom ex (endPoint curve) (startPoint curve)
     + (Fin 1 - velocityFilterWeight ps) * previous"

section \<open>Sample data\<close>

text \<open>
  Concrete inputs at which the theorems below are instantiated: stand-ins for the two
  missing methods, pointer events on a canvas whose rectangle starts at the origin, the
  component as it is after mounting with the default properties, and a curve.
\<close>

definition sample_ext :: ext where
  "sample_ext = \<lparr>velocityFrom = (\<lambda>e s. Fin 1), bezierLength = (\<lambda>c. Fin (5 / 2))\<rparr>"

definition event_at :: "real \<Rightarrow> real \<Rightarrow> int \<Rightarrow> event" where
  "event_at ex ey now =
     \<lparr>clientX = Fin ex, clientY = Fin ey, rectLeft = Fin 0, rectTop = Fin 0, dateNow = now\<rparr>"

definition mounted :: state where
  "mounted =
     \<lparr>points = [], lastVelocity = Fin 0, lastWidth = Fin (3 / 2), isEmpty = True, trace = []\<rparr>"

definition sample_curve :: bezier where
  "sample_curve =
     Bezier (Point (Fin 0) (Fin 0) 0) (Point (Fin 0) (Fin 0) 0)
       (Point (Fin 8) (Fin 0) 0) (Point (Fin 8) (Fin 0) 0)"

section \<open>The control-point solver\<close>

text \<open>NaN absorbs: an operation with a NaN operand gives NaN.\<close>

lemma NaN_absorbs:
  "a + NaN = NaN" "NaN + a = NaN" "a - NaN = NaN" "NaN - a = NaN"
  "a * NaN = NaN" "NaN * a = NaN"
  by (cases a; simp)+

lemma Math_sqrt_Fin_nonneg:
  assumes "Math_sqrt a = Fin r"
  shows "0 \<le> r"
  using assms by (cases a) (auto split: if_splits)

lemma sum_Fin_zero:
  assumes "a + b = Fin 0"
  shows "\<exists>l1 l2. a = Fin l1 \<and> b = Fin l2 \<and> l1 + l2 = 0"
  using assms by (cases a; cases b) auto

text \<open>When the two lengths add up to zero, both are zero and \<open>k\<close> is \<open>0 / 0\<close>.\<close>

lemma blend_factor_zero_lengths:
  assumes "segment_length s1 s2 + segment_length s2 s3 = Fin 0"
  shows "blend_factor s1 s2 s3 = NaN"
proof -
  from sum_Fin_zero[OF assms] obtain l1 l2 where
    l1: "segment_length s1 s2 = Fin l1" and l2: "segment_length s2 s3 = Fin l2"
    and s: "l1 + l2 = 0"
    by blast
  from l1 l2 have "0 \<le> l1" and "0 \<le> l2"
    by (auto simp: segment_length_def dest: Math_sqrt_Fin_nonneg)
  with s have "l2 = 0" and "l1 + l2 = 0" by simp_all
  with l1 l2 show ?thesis by (simp add: blend_factor_def)
qed

text \<open>The solver uses \<open>k\<close> as it is: a NaN \<open>k\<close> reaches every coordinate of both points.\<close>

lemma controls_NaN:
  assumes "blend_factor s1 s2 s3 = NaN"
  shows "calculateCurveControlPoints now s1 s2 s3
         = \<lparr>c1 = Point NaN NaN now, c2 = Point NaN NaN now\<rparr>"
proof -
  from assms have
    "Math_sqrt ((pt_x s2 - pt_x s3) * (pt_x s2 - pt_x s3)
                + (pt_y s2 - pt_y s3) * (pt_y s2 - pt_y s3))
     / (Math_sqrt ((pt_x s1 - pt_x s2) * (pt_x s1 - pt_x s2)
                   + (pt_y s1 - pt_y s2) * (pt_y s1 - pt_y s2))
        + Math_sqrt ((pt_x s2 - pt_x s3) * (pt_x s2 - pt_x s3)
                     + (pt_y s2 - pt_y s3) * (pt_y s2 - pt_y s3))) = NaN"
    by (simp add: blend_factor_def segment_length_def)
  then show ?thesis
    by (simp add: calculateCurveControlPoints_def Let_def NaN_absorbs)
qed

lemma lengths_coincident:
  "segment_length (Point (Fin a) (Fin b) t1) (Point (Fin a) (Fin b) t2)
   + segment_length (Point (Fin a) (Fin b) t2) (Point (Fin a) (Fin b) t3) = Fin 0"
  by (simp add: segment_length_def Point_def)

lemma controls_coincident:
  "calculateCurveControlPoints now (Point (Fin a) (Fin b) t1)
     (Point (Fin a) (Fin b) t2) (Point (Fin a) (Fin b) t3)
   = \<lparr>c1 = Point NaN NaN now, c2 = Point NaN NaN now\<rparr>"
  by (simp add: calculateCurveControlPoints_def Point_def Let_def)

text \<open>
  C2, as the code has it. The solver divides \<open>l2\<close> by \<open>l1 + l2\<close> with no guard, and \<open>k\<close> is
  never treated as 0. When \<open>l1 + l2\<close> is zero, \<open>k\<close> is \<open>0 / 0\<close>, which is NaN; and whenever
  \<open>k\<close> is NaN, every coordinate of both returned control points is NaN. Three samples with
  finite coordinates at one place are such an input: their lengths add up to zero and both
  control points are NaN. So the control points are not finite for every triple of samples.
\<close>

theorem calculateCurveControlPoints_unguarded:
  "(segment_length s1 s2 + segment_length s2 s3 = Fin 0 \<longrightarrow> blend_factor s1 s2 s3 = NaN)
   \<and> (blend_factor s1 s2 s3 = NaN \<longrightarrow>
        calculateCurveControlPoints now s1 s2 s3
          = \<lparr>c1 = Point NaN NaN now, c2 = Point NaN NaN now\<rparr>)
   \<and> segment_length (Point (Fin a) (Fin b) t1) (Point (Fin a) (Fin b) t2)
       + segment_length (Point (Fin a) (Fin b) t2) (Point (Fin a) (Fin b) t3) = Fin 0
   \<and> calculateCurveControlPoints now (Point (Fin a) (Fin b) t1)
         (Point (Fin a) (Fin b) t2) (Point (Fin a) (Fin b) t3)
       = \<lparr>c1 = Point NaN NaN now, c2 = Point NaN NaN now\<rparr>"
  using blend_factor_zero_lengths[of s1 s2 s3] controls_NaN[of s1 s2 s3 now]
    lengths_coincident[of a b t1 t2 t3] controls_coincident[of now a b t1 t2 t3]
  by blast

theorem calculateCurveControlPoints_unguarded_witness:
  "segment_length (Point (Fin 4) (Fin 5) 1) (Point (Fin 4) (Fin 5) 2)
     + segment_length (Point (Fin 4) (Fin 5) 2) (Point (Fin 4) (Fin 5) 3) = Fin 0
   \<and> blend_factor (Point (Fin 4) (Fin 5) 1) (Point (Fin 4) (Fin 5) 2)
       (Point (Fin 4) (Fin 5) 3) = NaN
   \<and> calculateCurveControlPoints 7 (Point (Fin 4) (Fin 5) 1)
       (Point (Fin 4) (Fin 5) 2) (Point (Fin 4) (Fin 5) 3)
     = \<lparr>c1 = Point NaN NaN 7, c2 = Point NaN NaN 7\<rparr>"
proof -
  note inst = calculateCurveControlPoints_unguarded
    [of "Point (Fin 4) (Fin 5) 1" "Point (Fin 4) (Fin 5) 2" "Point (Fin 4) (Fin 5) 3" 7 4 5 1 2 3]
  from inst have zero:
    "segment_length (Point (Fin 4) (Fin 5) 1) (Point (Fin 4) (Fin 5) 2)
     + segment_length (Point (Fin 4) (Fin 5) 2) (Point (Fin 4) (Fin 5) 3) = Fin 0"
    by blast
  with inst have k:
    "blend_factor (Point (Fin 4) (Fin 5) 1) (Point (Fin 4) (Fin 5) 2)
       (Point (Fin 4) (Fin 5) 3) = NaN"
    by blast
  with inst have
    "calculateCurveControlPoints 7 (Point (Fin 4) (Fin 5) 1)
       (Point (Fin 4) (Fin 5) 2) (Point (Fin 4) (Fin 5) 3)
     = \<lparr>c1 = Point NaN NaN 7, c2 = Point NaN NaN 7\<rparr>"
    by blast
  with zero k show ?thesis by blast
qed

text \<open>
  C2 as stated fails: three samples at the origin give control points whose coordinates
  are NaN, not finite numbers.
\<close>

theorem calculateCurveControlPoints_NaN_counterexample:
  "pt_x (c1 (calculateCurveControlPoints 0 (Point (Fin 0) (Fin 0) 0)
       (Point (Fin 0) (Fin 0) 0) (Point (Fin 0) (Fin 0) 0))) = NaN
   \<and> \<not> isFinite (pt_x (c1 (calculateCurveControlPoints 0 (Point (Fin 0) (Fin 0) 0)
       (Point (Fin 0) (Fin 0) 0) (Point (Fin 0) (Fin 0) 0))))
   \<and> \<not> isFinite (pt_y (c2 (calculateCurveControlPoints 0 (Point (Fin 0) (Fin 0) 0)
       (Point (Fin 0) (Fin 0) 0) (Point (Fin 0) (Fin 0) 0))))"
  by (simp add: calculateCurveControlPoints_def Point_def Let_def isFinite_def)

section \<open>The width mapper\<close>

lemma strokeWidth_Fin:
  assumes "maxWidth ps = Fin M" and "minWidth ps = Fin m" and "v \<noteq> - 1"
  shows "strokeWidth ps (Fin v) = Fin (max (M / (v + 1)) m)"
  using assms by (simp add: strokeWidth_def)

lemma width_antimono:
  fixes M m v v' :: real
  assumes "0 \<le> M" and "- 1 < v" and "v \<le> v'"
  shows "max (M / (v' + 1)) m \<le> max (M / (v + 1)) m"
proof -
  have "M / (v' + 1) \<le> M / (v + 1)"
    using assms by (intro divide_left_mono) (auto intro: mult_pos_pos)
  then show ?thesis by (auto simp: max_def)
qed

lemma width_range:
  fixes M m v :: real
  assumes "0 \<le> M" and "0 \<le> v" and "m \<le> M"
  shows "m \<le> max (M / (v + 1)) m" and "max (M / (v + 1)) m \<le> M"
proof -
  show "m \<le> max (M / (v + 1)) m" by simp
  have "M / (v + 1) \<le> M / 1" using assms by (intro divide_left_mono) auto
  then show "max (M / (v + 1)) m \<le> M" using assms by simp
qed

text \<open>
  C5. For every velocity the mapper returns \<open>max(maxWidth / (v + 1), minWidth)\<close>. The
  widths are non-negative numbers and the velocities that reach the mapper are not
  negative. There the result does not increase as \<open>v\<close> grows; this needs only
  \<open>maxWidth \<ge> 0\<close> and holds for all \<open>v\<close> above \<open>-1\<close>. For \<open>v \<ge> 0\<close> and
  \<open>minWidth \<le> maxWidth\<close> the result lies in the closed interval from \<open>minWidth\<close> to
  \<open>maxWidth\<close>, and at \<open>v = 0\<close> it is \<open>maxWidth\<close>.
\<close>

theorem strokeWidth_law:
  "strokeWidth ps vel = Math_max (maxWidth ps / (vel + Fin 1)) (minWidth ps)
   \<and> (maxWidth ps = Fin M \<and> minWidth ps = Fin m \<and> 0 \<le> M \<longrightarrow>
        (- 1 < v \<and> v \<le> v' \<longrightarrow>
           (\<exists>w w'. strokeWidth ps (Fin v) = Fin w \<and> strokeWidth ps (Fin v') = Fin w'
                    \<and> w' \<le> w))
      \<and> (0 \<le> v \<and> m \<le> M \<longrightarrow>
           (\<exists>w. strokeWidth ps (Fin v) = Fin w \<and> m \<le> w \<and> w \<le> M))
      \<and> (m \<le> M \<longrightarrow> strokeWidth ps (Fin 0) = Fin M))"
proof (intro conjI impI)
  show "strokeWidth ps vel = Math_max (maxWidth ps / (vel + Fin 1)) (minWidth ps)"
    by (simp add: strokeWidth_def)
next
  assume ps: "maxWidth ps = Fin M \<and> minWidth ps = Fin m \<and> 0 \<le> M" and v: "- 1 < v \<and> v \<le> v'"
  then have "strokeWidth ps (Fin v) = Fin (max (M / (v + 1)) m)"
    and "strokeWidth ps (Fin v') = Fin (max (M / (v' + 1)) m)"
    by (simp_all add: strokeWidth_Fin)
  moreover have "max (M / (v' + 1)) m \<le> max (M / (v + 1)) m"
    using ps v width_antimono[of M v v' m] by blast
  ultimately show "\<exists>w w'. strokeWidth ps (Fin v) = Fin w \<and> strokeWidth ps (Fin v') = Fin w'
                    \<and> w' \<le> w"
    by blast
next
  assume ps: "maxWidth ps = Fin M \<and> minWidth ps = Fin m \<and> 0 \<le> M" and v: "0 \<le> v \<and> m \<le> M"
  then have "strokeWidth ps (Fin v) = Fin (max (M / (v + 1)) m)"
    by (simp add: strokeWidth_Fin)
  moreover have "m \<le> max (M / (v + 1)) m" and "max (M / (v + 1)) m \<le> M"
    using ps v width_range[of M v m] by simp_all
  ultimately show "\<exists>w. strokeWidth ps (Fin v) = Fin w \<and> m \<le> w \<and> w \<le> M"
    by blast
next
  assume "maxWidth ps = Fin M \<and> minWidth ps = Fin m \<and> 0 \<le> M" and "m \<le> M"
  then show "strokeWidth ps (Fin 0) = Fin M"
    by (simp add: strokeWidth_def)
qed

theorem strokeWidth_law_witness:
  "(\<exists>w w'. strokeWidth defaultProps (Fin 1) = Fin w \<and> strokeWidth defaultProps (Fin 3) = Fin w'
            \<and> w' \<le> w)
   \<and> (\<exists>w. strokeWidth defaultProps (Fin 1) = Fin w \<and> 1 / 2 \<le> w \<and> w \<le> 5 / 2)
   \<and> strokeWidth defaultProps (Fin 0) = Fin (5 / 2)"
  using strokeWidth_law[of defaultProps "Fin 0" "5 / 2" "1 / 2" 1 3]
  by (simp add: defaultProps_def)

section \<open>The rasterizer\<close>

lemma trace_emit: "trace (emit e st) = trace st @ [e]"
  by (simp add: emit_def)

lemma trace_drawPoint:
  "trace (drawPoint px py w st)
   = trace st @ [MoveTo px py, Arc px py w (Fin 0) (Fin 2 * Math_PI) False]"
  by (simp add: drawPoint_def emit_def)

lemma trace_fold_drawPoint:
  "trace (fold (\<lambda>i. drawPoint (X i) (Y i) (W i)) js st)
   = trace st @ concat (map (\<lambda>i. [MoveTo (X i) (Y i),
                                    Arc (X i) (Y i) (W i) (Fin 0) (Fin 2 * Math_PI) False]) js)"
  by (induction js arbitrary: st) (simp_all add: trace_drawPoint)

text \<open>The loop ends for every step count but \<open>Infinity\<close>, and then never.\<close>

lemma drawLoop_Fin:
  "drawLoop curve sw wd (Fin (of_int z)) i st =
     Some (fold (drawStep curve sw wd (Fin (of_int z))) [i..<nat z] st)"
proof (induction "nat z - i" arbitrary: i st)
  case 0
  then have "\<not> real i < of_int z" by linarith
  moreover have "[i..<nat z] = []" using 0 by simp
  ultimately show ?case by (subst drawLoop.simps) simp
next
  case (Suc d)
  then have lt: "real i < of_int z" by linarith
  have "d = nat z - Suc i" using Suc.hyps(2) by simp
  from Suc.hyps(1)[OF this]
  have IH: "drawLoop curve sw wd (Fin (of_int z)) (Suc i)
              (drawStep curve sw wd (Fin (of_int z)) i st)
            = Some (fold (drawStep curve sw wd (Fin (of_int z))) [Suc i..<nat z]
                (drawStep curve sw wd (Fin (of_int z)) i st))" .
  have "[i..<nat z] = i # [Suc i..<nat z]"
    using Suc.hyps(2) by (simp add: upt_conv_Cons)
  then show ?case using lt IH by (subst drawLoop.simps) simp
qed

lemma drawLoop_NaN: "drawLoop curve sw wd NaN i st = Some st"
  by (subst drawLoop.simps) simp

lemma drawLoop_NegInfinity: "drawLoop curve sw wd NegInfinity i st = Some st"
  by (subst drawLoop.simps) simp

lemma drawLoop_Some_not_PosInfinity:
  assumes "drawLoop curve sw wd ds i st = Some st'"
  shows "ds \<noteq> PosInfinity"
  by (rule drawLoop.raw_induct
        [where P = "\<lambda>c sw wd ds i st y. ds \<noteq> PosInfinity", OF _ assms])
     (auto split: if_splits)

lemma drawLoop_PosInfinity: "drawLoop curve sw wd PosInfinity i st = None"
  using drawLoop_Some_not_PosInfinity[of curve sw wd PosInfinity i st]
  by (cases "drawLoop curve sw wd PosInfinity i st") auto

lemma drawStep_cubic:
  "drawStep curve sw wd ds i st =
     drawPoint (curve_x curve (Fin (real i) / ds)) (curve_y curve (Fin (real i) / ds))
       (sw + (Fin (real i) / ds) * (Fin (real i) / ds) * (Fin (real i) / ds) * wd) st"
  by (simp add: drawStep_def Let_def curve_x_def curve_y_def cubic_def)

lemma drawStep_sample:
  assumes "i < nat z"
  shows "drawStep curve sw wd (Fin (of_int z)) i st =
     drawPoint (curve_x curve (Fin (real i / of_int z)))
       (curve_y curve (Fin (real i / of_int z)))
       (sw + Fin ((real i / of_int z) ^ 3) * wd) st"
proof -
  have "real_of_int z \<noteq> 0" using assms by auto
  then have "Fin (real i) / Fin (of_int z) = Fin (real i / of_int z)" by simp
  then show ?thesis by (simp add: drawStep_cubic power3_eq_cube)
qed

lemma drawCurve_fold:
  assumes "bezierLength ex curve = Fin len"
  shows "drawCurve ex curve startWidth endWidth st =
     Some (emit Fill (emit ClosePath
       (fold (\<lambda>i. drawPoint (curve_x curve (Fin (real i / of_int \<lfloor>len\<rfloor>)))
                 (curve_y curve (Fin (real i / of_int \<lfloor>len\<rfloor>)))
                 (startWidth + Fin ((real i / of_int \<lfloor>len\<rfloor>) ^ 3) * (endWidth - startWidth)))
          [0..<nat \<lfloor>len\<rfloor>] (emit BeginPath st))))"
proof -
  have "fold (drawStep curve startWidth (endWidth - startWidth) (Fin (of_int \<lfloor>len\<rfloor>)))
          [0..<nat \<lfloor>len\<rfloor>] (emit BeginPath st)
      = fold (\<lambda>i. drawPoint (curve_x curve (Fin (real i / of_int \<lfloor>len\<rfloor>)))
                 (curve_y curve (Fin (real i / of_int \<lfloor>len\<rfloor>)))
                 (startWidth + Fin ((real i / of_int \<lfloor>len\<rfloor>) ^ 3) * (endWidth - startWidth)))
          [0..<nat \<lfloor>len\<rfloor>] (emit BeginPath st)"
    by (rule fold_cong) (simp_all add: fun_eq_iff drawStep_sample)
  then show ?thesis
    using assms by (simp add: drawCurve_def Let_def drawLoop_Fin)
qed

lemma drawCurve_no_steps:
  assumes "bezierLength ex curve = NaN \<or> bezierLength ex curve = NegInfinity"
  shows "drawCurve ex curve startWidth endWidth st
         = Some (emit Fill (emit ClosePath (emit BeginPath st)))"
  using assms by (auto simp: drawCurve_def Let_def drawLoop_NaN drawLoop_NegInfinity)

lemma drawCurve_diverges:
  assumes "bezierLength ex curve = PosInfinity"
  shows "drawCurve ex curve startWidth endWidth st = None"
  using assms by (simp add: drawCurve_def Let_def drawLoop_PosInfinity)

text \<open>
  C6. When \<open>curve.length()\<close> is the finite number \<open>len\<close>, \<open>_drawCurve\<close> calls
  \<open>_drawPoint\<close> once for each \<open>i\<close> from 0 up to, not including,
  \<open>steps = floor(len)\<close>, in this order, at the point of the cubic at \<open>t = i / steps\<close> and with
  the width \<open>startWidth + t\<^sup>3 * (endWidth - startWidth)\<close>, between \<open>beginPath\<close> and
  \<open>closePath\<close>, \<open>fill\<close>. When the length is NaN or \<open>-Infinity\<close> there is no sample, and when
  it is \<open>Infinity\<close> the loop does not end.
\<close>

theorem drawCurve_sampling:
  "(bezierLength ex curve = Fin len \<longrightarrow>
      drawCurve ex curve startWidth endWidth st =
        Some (emit Fill (emit ClosePath
          (fold (\<lambda>i. drawPoint (curve_x curve (Fin (real i / of_int \<lfloor>len\<rfloor>)))
                    (curve_y curve (Fin (real i / of_int \<lfloor>len\<rfloor>)))
                    (startWidth
                     + Fin ((real i / of_int \<lfloor>len\<rfloor>) ^ 3) * (endWidth - startWidth)))
             [0..<nat \<lfloor>len\<rfloor>] (emit BeginPath st)))))
   \<and> (bezierLength ex curve = NaN \<or> bezierLength ex curve = NegInfinity \<longrightarrow>
      drawCurve ex curve startWidth endWidth st
        = Some (emit Fill (emit ClosePath (emit BeginPath st))))
   \<and> (bezierLength ex curve = PosInfinity \<longrightarrow>
      drawCurve ex curve startWidth endWidth st = None)"
  using drawCurve_fold[of ex curve len startWidth endWidth st]
    drawCurve_no_steps[of ex curve startWidth endWidth st]
    drawCurve_diverges[of ex curve startWidth endWidth st]
  by blast

theorem drawCurve_sampling_witness:
  "bezierLength sample_ext sample_curve = Fin (5 / 2)
   \<and> drawCurve sample_ext sample_curve (Fin 1) (Fin 9) mounted =
       Some \<lparr>points = [], lastVelocity = Fin 0, lastWidth = Fin (3 / 2), isEmpty = False,
         trace = [BeginPath,
           MoveTo (Fin 0) (Fin 0), Arc (Fin 0) (Fin 0) (Fin 1) (Fin 0) (Fin 2 * Math_PI) False,
           MoveTo (Fin 4) (Fin 0), Arc (Fin 4) (Fin 0) (Fin 2) (Fin 0) (Fin 2 * Math_PI) False,
           ClosePath, Fill]\<rparr>
   \<and> bezierLength (sample_ext\<lparr>bezierLength := \<lambda>c. NaN\<rparr>) sample_curve = NaN
   \<and> drawCurve (sample_ext\<lparr>bezierLength := \<lambda>c. NaN\<rparr>) sample_curve (Fin 1) (Fin 9) mounted =
       Some (mounted\<lparr>trace := [BeginPath, ClosePath, Fill]\<rparr>)
   \<and> bezierLength (sample_ext\<lparr>bezierLength := \<lambda>c. PosInfinity\<rparr>) sample_curve = PosInfinity
   \<and> drawCurve (sample_ext\<lparr>bezierLength := \<lambda>c. PosInfinity\<rparr>) sample_curve (Fin 1) (Fin 9)
        mounted = None"
  using drawCurve_sampling[of sample_ext sample_curve "5 / 2" "Fin 1" "Fin 9" mounted]
    drawCurve_sampling[of "sample_ext\<lparr>bezierLength := \<lambda>c. NaN\<rparr>" sample_curve 0
      "Fin 1" "Fin 9" mounted]
    drawCurve_sampling[of "sample_ext\<lparr>bezierLength := \<lambda>c. PosInfinity\<rparr>" sample_curve 0
      "Fin 1" "Fin 9" mounted]
  by (simp add: sample_ext_def sample_curve_def mounted_def Bezier_def Point_def curve_x_def
      curve_y_def cubic_def drawPoint_def emit_def upt_rec power3_eq_cube)

text \<open>
  C4, as the code has it. \<open>_drawPoint(x, y, size)\<close> moves to the point and adds an arc, a
  full circle around it whose radius is \<open>size\<close> itself. \<open>_drawCurve\<close> passes the
  interpolated width as \<open>size\<close>, so each sampled point of a curve is a disc of radius
  \<open>width\<close>, not \<open>width / 2\<close>, and the discs of one curve are filled together.
\<close>

theorem drawCurve_disc_radius:
  "trace (drawPoint px py w st)
     = trace st @ [MoveTo px py, Arc px py w (Fin 0) (Fin 2 * Math_PI) False]
   \<and> (bezierLength ex curve = Fin len \<longrightarrow>
        (\<exists>st'. drawCurve ex curve startWidth endWidth st = Some st'
           \<and> trace st' = trace st @ [BeginPath]
               @ concat (map (\<lambda>i.
                   [MoveTo (curve_x curve (Fin (real i / of_int \<lfloor>len\<rfloor>)))
                      (curve_y curve (Fin (real i / of_int \<lfloor>len\<rfloor>))),
                    Arc (curve_x curve (Fin (real i / of_int \<lfloor>len\<rfloor>)))
                      (curve_y curve (Fin (real i / of_int \<lfloor>len\<rfloor>)))
                      (startWidth
                       + Fin ((real i / of_int \<lfloor>len\<rfloor>) ^ 3) * (endWidth - startWidth))
                      (Fin 0) (Fin 2 * Math_PI) False])
                   [0..<nat \<lfloor>len\<rfloor>])
               @ [ClosePath, Fill]))"
proof (intro conjI impI)
  show "trace (drawPoint px py w st)
     = trace st @ [MoveTo px py, Arc px py w (Fin 0) (Fin 2 * Math_PI) False]"
    by (rule trace_drawPoint)
next
  assume "bezierLength ex curve = Fin len"
  from drawCurve_fold[OF this, of startWidth endWidth st]
  show "\<exists>st'. drawCurve ex curve startWidth endWidth st = Some st'
           \<and> trace st' = trace st @ [BeginPath]
               @ concat (map (\<lambda>i.
                   [MoveTo (curve_x curve (Fin (real i / of_int \<lfloor>len\<rfloor>)))
                      (curve_y curve (Fin (real i / of_int \<lfloor>len\<rfloor>))),
                    Arc (curve_x curve (Fin (real i / of_int \<lfloor>len\<rfloor>)))
                      (curve_y curve (Fin (real i / of_int \<lfloor>len\<rfloor>)))
                      (startWidth
                       + Fin ((real i / of_int \<lfloor>len\<rfloor>) ^ 3) * (endWidth - startWidth))
                      (Fin 0) (Fin 2 * Math_PI) False])
                   [0..<nat \<lfloor>len\<rfloor>])
               @ [ClosePath, Fill]"
    by (simp add: trace_emit trace_fold_drawPoint)
qed

theorem drawCurve_disc_radius_witness:
  "bezierLength sample_ext sample_curve = Fin (5 / 2)
   \<and> (\<exists>st'. drawCurve sample_ext sample_curve (Fin 1) (Fin 9) mounted = Some st'
         \<and> trace st' = [BeginPath,
             MoveTo (Fin 0) (Fin 0), Arc (Fin 0) (Fin 0) (Fin 1) (Fin 0) (Fin 2 * Math_PI) False,
             MoveTo (Fin 4) (Fin 0), Arc (Fin 4) (Fin 0) (Fin 2) (Fin 0) (Fin 2 * Math_PI) False,
             ClosePath, Fill])"
  using drawCurve_disc_radius[of "Fin 0" "Fin 0" "Fin 0" mounted sample_ext sample_curve "5 / 2" "Fin 1" "Fin 9"]
  by (simp add: sample_ext_def sample_curve_def mounted_def Bezier_def Point_def curve_x_def
      curve_y_def cubic_def upt_rec power3_eq_cube)

text \<open>
  C4 as stated fails: a curve of length \<open>6/5\<close> drawn from width 3 has one sample, at the
  start point with width 3, and its arc has radius 3, where the claim has \<open>3/2\<close>.
\<close>

theorem drawCurve_disc_radius_counterexample:
  "map_option trace
     (drawCurve (sample_ext\<lparr>bezierLength := \<lambda>c. Fin (6 / 5)\<rparr>) sample_curve (Fin 3) (Fin 1)
        mounted)
   = Some [BeginPath,
       MoveTo (Fin 0) (Fin 0), Arc (Fin 0) (Fin 0) (Fin 3) (Fin 0) (Fin 2 * Math_PI) False,
       ClosePath, Fill]
   \<and> Fin 3 \<noteq> Fin 3 / Fin 2"
  using drawCurve_fold[of "sample_ext\<lparr>bezierLength := \<lambda>c. Fin (6 / 5)\<rparr>" sample_curve
      "6 / 5" "Fin 3" "Fin 1" mounted]
  by (simp add: sample_ext_def sample_curve_def mounted_def Bezier_def Point_def curve_x_def
      curve_y_def cubic_def drawPoint_def emit_def upt_rec power3_eq_cube)

section \<open>Curves and the filter state\<close>

lemma drawStep_frame:
  "points (drawStep curve sw wd ds i st) = points st"
  "lastVelocity (drawStep curve sw wd ds i st) = lastVelocity st"
  "lastWidth (drawStep curve sw wd ds i st) = lastWidth st"
  by (simp_all add: drawStep_def drawPoint_def emit_def Let_def)

lemma drawLoop_frame:
  assumes "drawLoop curve sw wd ds i st = Some st'"
  shows "points st' = points st \<and> lastVelocity st' = lastVelocity st
         \<and> lastWidth st' = lastWidth st"
  by (rule drawLoop.raw_induct
        [where P = "\<lambda>c sw wd ds i st y. points y = points st
            \<and> lastVelocity y = lastVelocity st \<and> lastWidth y = lastWidth st", OF _ assms])
     (auto split: if_splits simp: drawStep_frame)

lemma drawCurve_frame:
  assumes "drawCurve ex curve sw ew st = Some st'"
  shows "points st' = points st" and "lastVelocity st' = lastVelocity st"
    and "lastWidth st' = lastWidth st"
  using assms
    drawLoop_frame[of curve sw "ew - sw" "Math_floor (bezierLength ex curve)" 0
      "emit BeginPath st"]
  by (auto simp: drawCurve_def Let_def emit_def split: option.splits)

lemma drawCurve_total:
  assumes "bezierLength ex curve \<noteq> PosInfinity"
  shows "\<exists>st'. drawCurve ex curve sw ew st = Some st'"
  using assms drawCurve_fold[of ex curve _ sw ew st] drawCurve_no_steps[of ex curve sw ew st]
  by (cases "bezierLength ex curve") auto

lemma drawPoint_points_update:
  "drawPoint px py w (st\<lparr>points := ws\<rparr>) = (drawPoint px py w st)\<lparr>points := ws\<rparr>"
  by (simp add: drawPoint_def emit_def)

lemma fold_drawPoint_points_update:
  "fold (\<lambda>i. drawPoint (X i) (Y i) (W i)) js (st\<lparr>points := ws\<rparr>)
   = (fold (\<lambda>i. drawPoint (X i) (Y i) (W i)) js st)\<lparr>points := ws\<rparr>"
  by (induction js arbitrary: st) (simp_all add: drawPoint_points_update)

lemma emit_points_update: "emit e (st\<lparr>points := ws\<rparr>) = (emit e st)\<lparr>points := ws\<rparr>"
  by (simp add: emit_def)

text \<open>Drawing a curve neither reads nor writes the window.\<close>

lemma drawCurve_points_update:
  "drawCurve ex curve sw ew (st\<lparr>points := ws\<rparr>)
   = map_option (\<lambda>s. s\<lparr>points := ws\<rparr>) (drawCurve ex curve sw ew st)"
proof (cases "bezierLength ex curve")
  case (Fin len)
  then show ?thesis
    by (simp add: drawCurve_fold emit_points_update fold_drawPoint_points_update)
next
  case PosInfinity
  then show ?thesis by (simp add: drawCurve_diverges)
next
  case NegInfinity
  then show ?thesis by (simp add: drawCurve_no_steps emit_points_update)
next
  case NaN
  then show ?thesis by (simp add: drawCurve_no_steps emit_points_update)
qed

lemma addCurve_eq:
  "addCurve ex ps curve st =
     map_option (\<lambda>s. s\<lparr>lastVelocity := smoothed ex ps curve (lastVelocity st),
                       lastWidth := strokeWidth ps (smoothed ex ps curve (lastVelocity st))\<rparr>)
       (drawCurve ex curve (lastWidth st)
          (strokeWidth ps (smoothed ex ps curve (lastVelocity st))) st)"
  by (simp add: addCurve_def Let_def smoothed_def split: option.splits)

lemma addCurve_points_update:
  "addCurve ex ps curve (st\<lparr>points := ws\<rparr>)
   = map_option (\<lambda>s. s\<lparr>points := ws\<rparr>) (addCurve ex ps curve st)"
  by (cases "drawCurve ex curve (lastWidth st)
        (strokeWidth ps (smoothed ex ps curve (lastVelocity st))) st")
     (simp_all add: addCurve_eq drawCurve_points_update)

lemma addCurve_total:
  assumes "bezierLength ex curve \<noteq> PosInfinity"
  shows "\<exists>st'. addCurve ex ps curve st = Some st'"
  using drawCurve_total[OF assms] by (simp add: addCurve_eq)

lemma strokeBegin_eq:
  "strokeBegin ex ps ev st
   = Some (emit (OnBegin ev) ((reset ps st)\<lparr>points := [createPoint ev]\<rparr>))"
  by (simp add: strokeBegin_def strokeUpdate_def addPoint_def reset_def emit_def Let_def)

lemma addCurve_returns:
  assumes "bezierLength ex curve \<noteq> PosInfinity"
  shows "\<exists>st'. addCurve ex ps curve st = Some st'
           \<and> lastVelocity st' = smoothed ex ps curve (lastVelocity st)
           \<and> lastWidth st' = strokeWidth ps (smoothed ex ps curve (lastVelocity st))"
proof -
  from drawCurve_total[OF assms] obtain z where
    "drawCurve ex curve (lastWidth st)
       (strokeWidth ps (smoothed ex ps curve (lastVelocity st))) st = Some z"
    by blast
  then show ?thesis by (simp add: addCurve_eq)
qed

lemma addCurve_next:
  assumes "addCurve ex ps curve st = Some st'"
  shows "addCurve ex ps next_curve st'
     = map_option
         (\<lambda>s. s\<lparr>lastVelocity := smoothed ex ps next_curve (smoothed ex ps curve (lastVelocity st)),
                 lastWidth := strokeWidth ps
                   (smoothed ex ps next_curve (smoothed ex ps curve (lastVelocity st)))\<rparr>)
         (drawCurve ex next_curve (strokeWidth ps (smoothed ex ps curve (lastVelocity st)))
            (strokeWidth ps
               (smoothed ex ps next_curve (smoothed ex ps curve (lastVelocity st)))) st')"
proof -
  from assms have "lastVelocity st' = smoothed ex ps curve (lastVelocity st)"
    and "lastWidth st' = strokeWidth ps (smoothed ex ps curve (lastVelocity st))"
    by (auto simp: addCurve_eq)
  then show ?thesis by (simp add: addCurve_eq)
qed

text \<open>
  C7. A stroke begin always returns, with the filter state at
  \<open>(0, (minWidth + maxWidth) / 2)\<close>; the default weight is 0.7. \<open>_addCurve\<close> smooths the
  velocity of the curve with the last velocity, draws the curve from the last width to the
  width of the smoothed velocity, and stores both; it returns whenever the length of the
  curve is not \<open>Infinity\<close>. So the next curve of the stroke starts at the width at which
  this one ended.
\<close>

theorem addCurve_filter_state:
  "(\<exists>st1. strokeBegin ex ps ev st = Some st1 \<and> lastVelocity st1 = Fin 0
          \<and> lastWidth st1 = (minWidth ps + maxWidth ps) / Fin 2)
   \<and> velocityFilterWeight defaultProps = Fin 0.7
   \<and> (let v = velocityFilterWeight ps * velocityFrom ex (endPoint curve) (startPoint curve)
              + (Fin 1 - velocityFilterWeight ps) * lastVelocity st;
           w = strokeWidth ps v
       in addCurve ex ps curve st
            = map_option (\<lambda>s. s\<lparr>lastVelocity := v, lastWidth := w\<rparr>)
                (drawCurve ex curve (lastWidth st) w st)
          \<and> (bezierLength ex curve \<noteq> PosInfinity \<longrightarrow>
               (\<exists>st'. addCurve ex ps curve st = Some st' \<and> lastVelocity st' = v
                      \<and> lastWidth st' = w))
          \<and> (\<forall>st'. addCurve ex ps curve st = Some st' \<longrightarrow>
               (let v' = velocityFilterWeight ps
                           * velocityFrom ex (endPoint next_curve) (startPoint next_curve)
                         + (Fin 1 - velocityFilterWeight ps) * v
                in addCurve ex ps next_curve st'
                     = map_option (\<lambda>s. s\<lparr>lastVelocity := v', lastWidth := strokeWidth ps v'\<rparr>)
                         (drawCurve ex next_curve w (strokeWidth ps v') st'))))"
proof -
  have "\<exists>st1. strokeBegin ex ps ev st = Some st1 \<and> lastVelocity st1 = Fin 0
          \<and> lastWidth st1 = (minWidth ps + maxWidth ps) / Fin 2"
    by (simp add: strokeBegin_eq reset_def emit_def)
  moreover have "velocityFilterWeight defaultProps = Fin 0.7"
    by (simp add: defaultProps_def)
  ultimately show ?thesis
    unfolding Let_def
    using addCurve_eq[of ex ps curve st] addCurve_returns[of ex curve ps st]
      addCurve_next[of ex ps curve st _ next_curve]
    unfolding smoothed_def
    by blast
qed

theorem addCurve_filter_state_witness:
  "bezierLength sample_ext sample_curve \<noteq> PosInfinity
   \<and> (\<exists>st1. strokeBegin sample_ext defaultProps (event_at 1 1 0) mounted = Some st1
         \<and> lastVelocity st1 = Fin 0 \<and> lastWidth st1 = Fin (3 / 2))
   \<and> (\<exists>st'. addCurve sample_ext defaultProps sample_curve mounted = Some st'
         \<and> lastVelocity st' = Fin (7 / 10) \<and> lastWidth st' = Fin (25 / 17)
         \<and> addCurve sample_ext defaultProps sample_curve st'
             = map_option
                 (\<lambda>s. s\<lparr>lastVelocity := Fin (91 / 100), lastWidth := Fin (250 / 191)\<rparr>)
                 (drawCurve sample_ext sample_curve (Fin (25 / 17)) (Fin (250 / 191)) st'))"
proof -
  note inst = addCurve_filter_state[of sample_ext defaultProps "event_at 1 1 0" mounted
      sample_curve sample_curve]
  have fin: "bezierLength sample_ext sample_curve \<noteq> PosInfinity"
    by (simp add: sample_ext_def)
  have half: "(minWidth defaultProps + maxWidth defaultProps) / Fin 2 = Fin (3 / 2)"
    by (simp add: defaultProps_def)
  have v: "velocityFilterWeight defaultProps
             * velocityFrom sample_ext (endPoint sample_curve) (startPoint sample_curve)
           + (Fin 1 - velocityFilterWeight defaultProps) * lastVelocity mounted = Fin (7 / 10)"
    by (simp add: defaultProps_def sample_ext_def mounted_def)
  have w: "strokeWidth defaultProps (Fin (7 / 10)) = Fin (25 / 17)"
    by (simp add: strokeWidth_def defaultProps_def)
  have v': "velocityFilterWeight defaultProps
             * velocityFrom sample_ext (endPoint sample_curve) (startPoint sample_curve)
           + (Fin 1 - velocityFilterWeight defaultProps) * Fin (7 / 10) = Fin (91 / 100)"
    by (simp add: defaultProps_def sample_ext_def)
  have w': "strokeWidth defaultProps (Fin (91 / 100)) = Fin (250 / 191)"
    by (simp add: strokeWidth_def defaultProps_def)
  from inst fin show ?thesis
    unfolding Let_def half v w v' w' by blast
qed

section \<open>The curve buffer\<close>

lemma addCurve_frame:
  assumes "addCurve ex ps curve st = Some st'"
  shows "points st' = points st"
  using assms drawCurve_frame(1)[of ex curve] by (auto simp: addCurve_eq)

lemma addPoint_short:
  assumes "length (points st @ [p]) < 3"
  shows "addPoint ex ps now p st = Some (st\<lparr>points := points st @ [p]\<rparr>)"
  using assms by (simp add: addPoint_def Let_def)

lemma addPoint_curve:
  assumes "3 \<le> length (points st @ [p])"
  shows "addPoint ex ps now p st =
     (let w1 = points st @ [p];
          w = (if length w1 = 3 then hd w1 # w1 else w1)
      in map_option (\<lambda>s. s\<lparr>points := tl w\<rparr>) (addCurve ex ps (window_curve now w) st))"
proof -
  have "(points st @ [p]) ! 0 = hd (points st @ [p])"
    by (simp add: hd_conv_nth)
  then show ?thesis
    using assms
    by (auto simp: addPoint_def Let_def window_curve_def addCurve_points_update
        option.map_comp comp_def split: option.splits)
qed

text \<open>
  C1. Let \<open>w1\<close> be the window after the append. With fewer than three samples in \<open>w1\<close>
  nothing else happens: no curve, and \<open>w1\<close> is the new window. Otherwise let \<open>w\<close> be \<open>w1\<close>,
  with its first sample prepended once more when \<open>w1\<close> has exactly three; then \<open>w\<close> has at
  least four samples, \<open>_addCurve\<close> is called once, with
  \<open>Curve(w[1], c2, c1, w[2])\<close> where \<open>c2\<close> is solved from \<open>(w[0], w[1], w[2])\<close> and \<open>c1\<close> from
  \<open>(w[1], w[2], w[3])\<close>, and the new window is \<open>w\<close> without \<open>w[0]\<close>.
\<close>

theorem addPoint_window:
  "(let w1 = points st @ [p];
        w = (if length w1 = 3 then hd w1 # w1 else w1)
    in (length w1 < 3 \<longrightarrow> addPoint ex ps now p st = Some (st\<lparr>points := w1\<rparr>))
     \<and> (3 \<le> length w1 \<longrightarrow>
          4 \<le> length w
          \<and> addPoint ex ps now p st
              = map_option (\<lambda>s. s\<lparr>points := tl w\<rparr>)
                  (addCurve ex ps
                     (Bezier (w ! 1)
                        (c2 (calculateCurveControlPoints now (w ! 0) (w ! 1) (w ! 2)))
                        (c1 (calculateCurveControlPoints now (w ! 1) (w ! 2) (w ! 3)))
                        (w ! 2))
                     st)))"
  using addPoint_short[of st p ex ps now] addPoint_curve[of st p ex ps now]
  by (auto simp: Let_def window_curve_def)

theorem addPoint_window_witness:
  "length (points mounted @ [Point (Fin 0) (Fin 0) 0]) < 3
   \<and> addPoint sample_ext defaultProps 0 (Point (Fin 0) (Fin 0) 0) mounted
       = Some (mounted\<lparr>points := [Point (Fin 0) (Fin 0) 0]\<rparr>)
   \<and> 3 \<le> length (points (mounted\<lparr>points := [Point (Fin 0) (Fin 0) 0, Point (Fin 1) (Fin 0) 1]\<rparr>)
              @ [Point (Fin 2) (Fin 0) 2])
   \<and> addPoint sample_ext defaultProps 3 (Point (Fin 2) (Fin 0) 2)
         (mounted\<lparr>points := [Point (Fin 0) (Fin 0) 0, Point (Fin 1) (Fin 0) 1]\<rparr>)
       = map_option
           (\<lambda>s. s\<lparr>points := [Point (Fin 0) (Fin 0) 0, Point (Fin 1) (Fin 0) 1,
                              Point (Fin 2) (Fin 0) 2]\<rparr>)
           (addCurve sample_ext defaultProps
              (Bezier (Point (Fin 0) (Fin 0) 0) (Point (Fin (1 / 2)) (Fin 0) 3)
                 (Point (Fin (1 / 2)) (Fin 0) 3) (Point (Fin 1) (Fin 0) 1))
              (mounted\<lparr>points := [Point (Fin 0) (Fin 0) 0, Point (Fin 1) (Fin 0) 1]\<rparr>))"
  using addPoint_window[of mounted "Point (Fin 0) (Fin 0) 0" sample_ext defaultProps 0]
    addPoint_window[of "mounted\<lparr>points := [Point (Fin 0) (Fin 0) 0, Point (Fin 1) (Fin 0) 1]\<rparr>"
      "Point (Fin 2) (Fin 0) 2" sample_ext defaultProps 3]
  by (simp add: Let_def mounted_def calculateCurveControlPoints_def Point_def)

section \<open>The stroke controller\<close>

lemma addPoint_length:
  assumes "addPoint ex ps now p st = Some st'"
  shows "length (points st') =
     (if length (points st) < 2 then Suc (length (points st))
      else if length (points st) = 2 then 3 else length (points st))"
proof (cases "length (points st) < 2")
  case True
  then show ?thesis using assms by (auto simp: addPoint_short)
next
  case False
  then have "3 \<le> length (points st @ [p])" by simp
  from addPoint_curve[OF this, of ex ps now] assms
  have "map_option (\<lambda>s. s\<lparr>points := tl (if length (points st @ [p]) = 3
            then hd (points st @ [p]) # points st @ [p] else points st @ [p])\<rparr>)
          (addCurve ex ps (window_curve now (if length (points st @ [p]) = 3
            then hd (points st @ [p]) # points st @ [p] else points st @ [p])) st) = Some st'"
    by (simp add: Let_def)
  then obtain s where "st' = s\<lparr>points := tl (if length (points st @ [p]) = 3
            then hd (points st @ [p]) # points st @ [p] else points st @ [p])\<rparr>"
    by auto
  then show ?thesis using False by auto
qed

lemma addPoint_total:
  assumes "\<forall>c. bezierLength ex c \<noteq> PosInfinity"
  shows "\<exists>st'. addPoint ex ps now p st = Some st'"
proof (cases "length (points st) < 2")
  case True
  then show ?thesis by (simp add: addPoint_short)
next
  case False
  then have "3 \<le> length (points st @ [p])" by simp
  from addPoint_curve[OF this, of ex ps now] addCurve_total[of ex _ ps st] assms
  show ?thesis by (auto simp: Let_def)
qed

lemma strokeEnd_points: "points (strokeEnd ps ev st) = points st"
  by (simp add: strokeEnd_def strokeDraw_def drawPoint_def emit_def Let_def split: list.splits)

lemma strokeEnd_filter:
  "lastVelocity (strokeEnd ps ev st) = lastVelocity st"
  "lastWidth (strokeEnd ps ev st) = lastWidth st"
  by (simp_all add: strokeEnd_def strokeDraw_def drawPoint_def emit_def Let_def
      split: list.splits)

lemma strokeEnd_trace:
  "trace (strokeEnd ps ev st) = trace st
     @ (if points st \<noteq> [] \<and> length (points st) \<le> 2
        then [BeginPath, MoveTo (pt_x (hd (points st))) (pt_y (hd (points st))),
          Arc (pt_x (hd (points st))) (pt_y (hd (points st))) (dotSizeOf ps)
            (Fin 0) (Fin 2 * Math_PI) False,
          ClosePath, Fill]
        else [])
     @ [OnEnd ev]"
  by (cases "points st")
     (auto simp: strokeEnd_def strokeDraw_def drawPoint_def emit_def Let_def)

lemma strokeEnd_dot:
  assumes "points st = p # rest" and "length (points st) < 3"
  shows "strokeEnd ps ev st =
     st\<lparr>isEmpty := False,
        trace := trace st @ [BeginPath, MoveTo (pt_x p) (pt_y p),
          Arc (pt_x p) (pt_y p) (dotSizeOf ps) (Fin 0) (Fin 2 * Math_PI) False,
          ClosePath, Fill, OnEnd ev]\<rparr>"
  using assms by (simp add: strokeEnd_def strokeDraw_def drawPoint_def emit_def Let_def)

lemma strokeEnd_no_sample:
  assumes "points st = []"
  shows "strokeEnd ps ev st = emit (OnEnd ev) st"
  using assms by (simp add: strokeEnd_def Let_def)

lemma step_bound:
  assumes "step ex ps c st = Some st'" and "length (points st) \<le> 4"
  shows "length (points st') \<le> 4"
proof (cases c)
  case (Begin ev)
  then show ?thesis using assms by (auto simp: strokeBegin_eq emit_def)
next
  case (Update ev)
  then show ?thesis
    using assms addPoint_length[of ex ps "dateNow ev" "createPoint ev" st st']
    by (auto simp: strokeUpdate_def split: if_splits)
next
  case (End ev)
  then show ?thesis using assms by (auto simp: strokeEnd_points)
qed

lemma run_bound:
  assumes "run ex ps cs st = Some st'" and "length (points st) \<le> 4"
  shows "length (points st') \<le> 4"
  using assms
proof (induction cs arbitrary: st)
  case Nil
  then show ?case by simp
next
  case (Cons c cs)
  then show ?case by (auto split: option.splits dest: step_bound)
qed

lemma step_total:
  assumes "\<forall>c. bezierLength ex c \<noteq> PosInfinity"
  shows "\<exists>st'. step ex ps c st = Some st'"
  using addPoint_total[OF assms]
  by (cases c) (auto simp: strokeBegin_eq strokeUpdate_def)

lemma run_total:
  assumes "\<forall>c. bezierLength ex c \<noteq> PosInfinity"
  shows "\<exists>st'. run ex ps cs st = Some st'"
proof (induction cs arbitrary: st)
  case Nil
  then show ?case by simp
next
  case (Cons c cs)
  from step_total[OF assms, of ps c st] obtain st1 where "step ex ps c st = Some st1"
    by blast
  with Cons[of st1] show ?case by simp
qed

text \<open>
  C8. A session that starts with at most four samples in the window and returns leaves at
  most four samples in it, whatever stroke methods it calls; this holds after each call,
  since every prefix of a session is a session. \<open>_reset\<close> empties the window, and a stroke
  begin always returns, with the begin sample alone in the window. A session returns
  whenever no curve has the length \<open>Infinity\<close>.
\<close>

theorem window_bound:
  "(length (points st) \<le> 4 \<and> run ex ps cs st = Some st' \<longrightarrow> length (points st') \<le> 4)
   \<and> points (reset ps st) = []
   \<and> (\<exists>st1. strokeBegin ex ps ev st = Some st1 \<and> points st1 = [createPoint ev])
   \<and> ((\<forall>c. bezierLength ex c \<noteq> PosInfinity) \<longrightarrow> (\<exists>st2. run ex ps cs st = Some st2))"
  using run_bound[of ex ps cs st st'] run_total[of ex ps cs st]
  by (auto simp: strokeBegin_eq reset_def emit_def)

theorem window_bound_witness:
  "length (points mounted) \<le> 4
   \<and> (\<forall>c. bezierLength sample_ext c \<noteq> PosInfinity)
   \<and> (\<exists>st'. run sample_ext defaultProps
               [Begin (event_at 0 0 0), Update (event_at 1 0 1), Update (event_at 2 0 2),
                Update (event_at 3 0 3), Update (event_at 4 0 4)] mounted = Some st'
          \<and> length (points st') \<le> 4)"
proof -
  have a: "length (points mounted) \<le> 4" by (simp add: mounted_def)
  have b: "\<forall>c. bezierLength sample_ext c \<noteq> PosInfinity" by (simp add: sample_ext_def)
  from b obtain st' where r: "run sample_ext defaultProps
               [Begin (event_at 0 0 0), Update (event_at 1 0 1), Update (event_at 2 0 2),
                Update (event_at 3 0 3), Update (event_at 4 0 4)] mounted = Some st'"
    using window_bound[of mounted sample_ext defaultProps _ _ "event_at 0 0 0"] by blast
  with a have "length (points st') \<le> 4"
    using window_bound[of mounted sample_ext defaultProps _ st' "event_at 0 0 0"] by blast
  with a b r show ?thesis by blast
qed

text \<open>
  C3, as the code has it. \<open>_strokeEnd\<close> performs no update: it creates no point from its
  event, leaves the window and the filter state as they are and emits no curve. It checks
  the window as the earlier calls left it, paints the fallback dot when the window holds
  one or two samples, and then calls \<open>onEnd\<close>.
\<close>

theorem strokeEnd_no_update:
  "points (strokeEnd ps ev st) = points st
   \<and> lastVelocity (strokeEnd ps ev st) = lastVelocity st
   \<and> lastWidth (strokeEnd ps ev st) = lastWidth st
   \<and> trace (strokeEnd ps ev st)
       = trace st
         @ (if points st \<noteq> [] \<and> length (points st) \<le> 2
            then [BeginPath, MoveTo (pt_x (hd (points st))) (pt_y (hd (points st))),
                  Arc (pt_x (hd (points st))) (pt_y (hd (points st))) (dotSizeOf ps)
                    (Fin 0) (Fin 2 * Math_PI) False,
                  ClosePath, Fill]
            else [])
         @ [OnEnd ev]"
  using strokeEnd_points[of ps ev st] strokeEnd_filter[of ps ev st] strokeEnd_trace[of ps ev st]
  by simp

text \<open>
  C3 as stated fails: after a begin at \<open>(1, 1)\<close> and an update at \<open>(2, 1)\<close>, the end at
  \<open>(3, 1)\<close> leaves two samples in the window, without the sample of the end event, and
  paints the dot where a final update would have emitted a curve.
\<close>

theorem strokeEnd_no_update_counterexample:
  "run sample_ext defaultProps
     [Begin (event_at 1 1 0), Update (event_at 2 1 1), End (event_at 3 1 2)] mounted
   = Some \<lparr>points = [Point (Fin 1) (Fin 1) 0, Point (Fin 2) (Fin 1) 1],
       lastVelocity = Fin 0, lastWidth = Fin (3 / 2), isEmpty = False,
       trace = [SetFillStyle ''black'', OnBegin (event_at 1 1 0), BeginPath,
         MoveTo (Fin 1) (Fin 1),
         Arc (Fin 1) (Fin 1) (Fin (3 / 2)) (Fin 0) (Fin 2 * Math_PI) False,
         ClosePath, Fill, OnEnd (event_at 3 1 2)]\<rparr>
   \<and> createPoint (event_at 3 1 2) = Point (Fin 3) (Fin 1) 2"
  by (simp add: strokeBegin_eq strokeUpdate_def addPoint_def strokeEnd_def strokeDraw_def
      drawPoint_def dotSizeOf_def reset_def emit_def createPoint_def event_at_def Point_def
      mounted_def defaultProps_def Let_def)

text \<open>Every call of \<open>_addCurve\<close> that returns has opened a path on the context.\<close>

lemma drawLoop_trace:
  assumes "drawLoop curve sw wd ds i st = Some st'"
  shows "\<exists>ops. trace st' = trace st @ ops"
proof (rule drawLoop.raw_induct
    [where P = "\<lambda>c sw wd ds i st y. \<exists>ops. trace y = trace st @ ops", OF _ assms])
  fix f :: "bezier \<Rightarrow> number \<Rightarrow> number \<Rightarrow> number \<Rightarrow> nat \<Rightarrow> state \<Rightarrow> state option"
    and c sw wd ds i st y
  assume IH: "\<And>c sw wd ds i st y. f c sw wd ds i st = Some y
      \<Longrightarrow> \<exists>ops. trace y = trace st @ ops"
  assume eq: "(if js_lt (Fin (real i)) ds
      then f c sw wd ds (Suc i) (drawStep c sw wd ds i st) else Some st) = Some y"
  show "\<exists>ops. trace y = trace st @ ops"
  proof (cases "js_lt (Fin (real i)) ds")
    case True
    with eq have "f c sw wd ds (Suc i) (drawStep c sw wd ds i st) = Some y" by simp
    from IH[OF this] obtain ops where "trace y = trace (drawStep c sw wd ds i st) @ ops"
      by blast
    then show ?thesis by (simp add: drawStep_cubic trace_drawPoint)
  next
    case False
    with eq show ?thesis by simp
  qed
qed

lemma addCurve_trace:
  assumes "addCurve ex ps curve st = Some st'"
  shows "\<exists>ops. trace st' = trace st @ BeginPath # ops"
proof -
  from assms obtain z where
    z: "drawLoop curve (lastWidth st)
          (strokeWidth ps (smoothed ex ps curve (lastVelocity st)) - lastWidth st)
          (Math_floor (bezierLength ex curve)) 0 (emit BeginPath st) = Some z"
    and st': "trace st' = trace (emit Fill (emit ClosePath z))"
    by (auto simp: addCurve_eq drawCurve_def Let_def split: option.splits)
  from drawLoop_trace[OF z] obtain ops where "trace z = trace (emit BeginPath st) @ ops"
    by blast
  with st' have "trace st' = trace st @ BeginPath # (ops @ [ClosePath, Fill])"
    by (simp add: trace_emit)
  then show ?thesis by blast
qed

lemma updates_keep_three:
  assumes "run ex ps (map Update es) st = Some st'" and "length (points st) = 3"
  shows "length (points st') = 3"
  using assms
proof (induction es arbitrary: st)
  case Nil
  then show ?case by simp
next
  case (Cons e es)
  from Cons.prems obtain st1 where s1: "strokeUpdate ex ps e st = Some st1"
    and r: "run ex ps (map Update es) st1 = Some st'"
    by (auto split: option.splits)
  from s1 Cons.prems(2) have "length (points st1) = 3"
    using addPoint_length[of ex ps "dateNow e" "createPoint e" st st1]
    by (simp add: strokeUpdate_def)
  with Cons.IH[OF r] show ?case by simp
qed

lemma short_stroke:
  assumes "run ex ps (Begin e0 # map Update es) st = Some st1"
    and "length (points st1) < 3"
  shows "length es \<le> 1
     \<and> st1 = (emit (OnBegin e0) (reset ps st))\<lparr>points := createPoint e0 # map createPoint es\<rparr>"
proof (cases es)
  case Nil
  then show ?thesis using assms by (auto simp: strokeBegin_eq emit_points_update)
next
  case (Cons e1 es1)
  note es = Cons
  let ?b = "emit (OnBegin e0) ((reset ps st)\<lparr>points := [createPoint e0]\<rparr>)"
  have u1: "strokeUpdate ex ps e1 ?b = Some (?b\<lparr>points := [createPoint e0, createPoint e1]\<rparr>)"
    by (simp add: strokeUpdate_def addPoint_short emit_points_update)
  show ?thesis
  proof (cases es1)
    case Nil
    then show ?thesis using assms es u1 by (auto simp: strokeBegin_eq emit_points_update)
  next
    case (Cons e2 es2)
    let ?c = "?b\<lparr>points := [createPoint e0, createPoint e1]\<rparr>"
    from assms(1) es Cons u1 obtain st3 where
      s3: "strokeUpdate ex ps e2 ?c = Some st3"
      and r: "run ex ps (map Update es2) st3 = Some st1"
      by (auto simp: strokeBegin_eq split: option.splits)
    have "length (points st3) = 3"
      using s3 addPoint_length[of ex ps "dateNow e2" "createPoint e2" ?c st3]
      by (simp add: strokeUpdate_def)
    from updates_keep_three[OF r this] assms(2) show ?thesis by simp
  qed
qed

lemma trace_begun:
  "trace (emit (OnBegin e0) (reset ps st)) = trace st @ [SetFillStyle (penColor ps), OnBegin e0]"
  by (simp add: reset_def emit_def)

text \<open>
  C9. When a stroke, a begin followed by updates, has fewer than three samples in the
  window as the end runs, the state is the one of the begin with the samples appended:
  the only effects so far are the fill style of \<open>_reset\<close> and \<open>onBegin\<close>, so no curve was
  emitted (an emitted curve leaves \<open>beginPath\<close> among the effects). On a window of one or two samples \<open>_strokeEnd\<close> paints exactly one dot, at the
  first sample, with the size of the \<open>dotSize\<close> property: the result of calling it with
  \<open>(minWidth, maxWidth)\<close> when it is a function, the number itself otherwise. On an empty
  window it paints nothing.
\<close>

theorem short_stroke_dot:
  "(run ex ps (Begin e0 # map Update es) st = Some st1 \<and> length (points st1) < 3 \<longrightarrow>
      st1 = (emit (OnBegin e0) (reset ps st))\<lparr>points := createPoint e0 # map createPoint es\<rparr>
      \<and> trace st1 = trace st @ [SetFillStyle (penColor ps), OnBegin e0]
      \<and> strokeEnd ps eE st1 =
          st1\<lparr>isEmpty := False,
              trace := trace st1
                @ [BeginPath, MoveTo (pt_x (createPoint e0)) (pt_y (createPoint e0)),
                   Arc (pt_x (createPoint e0)) (pt_y (createPoint e0)) (dotSizeOf ps)
                     (Fin 0) (Fin 2 * Math_PI) False,
                   ClosePath, Fill, OnEnd eE]\<rparr>)
   \<and> (points st = p # rest \<and> length (points st) < 3 \<longrightarrow>
        strokeEnd ps eE st =
          st\<lparr>isEmpty := False,
             trace := trace st
               @ [BeginPath, MoveTo (pt_x p) (pt_y p),
                  Arc (pt_x p) (pt_y p) (dotSizeOf ps) (Fin 0) (Fin 2 * Math_PI) False,
                  ClosePath, Fill, OnEnd eE]\<rparr>)
   \<and> (points st = [] \<longrightarrow> strokeEnd ps eE st = emit (OnEnd eE) st)
   \<and> dotSizeOf ps = (case dotSize ps of
                       DotFunction f \<Rightarrow> f (minWidth ps) (maxWidth ps)
                     | DotNumber d \<Rightarrow> d)
   \<and> (addCurve ex ps curve st = Some st' \<longrightarrow>
        (\<exists>ops. trace st' = trace st @ BeginPath # ops))"
proof (intro conjI impI)
  assume h: "run ex ps (Begin e0 # map Update es) st = Some st1 \<and> length (points st1) < 3"
  with short_stroke[of ex ps e0 es st st1]
  show eq: "st1 = (emit (OnBegin e0) (reset ps st))\<lparr>points := createPoint e0 # map createPoint es\<rparr>"
    by blast
  then show "trace st1 = trace st @ [SetFillStyle (penColor ps), OnBegin e0]"
    by (simp add: trace_begun)
  from eq have "points st1 = createPoint e0 # map createPoint es" by simp
  with h show "strokeEnd ps eE st1 =
          st1\<lparr>isEmpty := False,
              trace := trace st1
                @ [BeginPath, MoveTo (pt_x (createPoint e0)) (pt_y (createPoint e0)),
                   Arc (pt_x (createPoint e0)) (pt_y (createPoint e0)) (dotSizeOf ps)
                     (Fin 0) (Fin 2 * Math_PI) False,
                   ClosePath, Fill, OnEnd eE]\<rparr>"
    using strokeEnd_dot[of st1 "createPoint e0" "map createPoint es" ps eE] by blast
next
  assume "points st = p # rest \<and> length (points st) < 3"
  then show "strokeEnd ps eE st =
          st\<lparr>isEmpty := False,
             trace := trace st
               @ [BeginPath, MoveTo (pt_x p) (pt_y p),
                  Arc (pt_x p) (pt_y p) (dotSizeOf ps) (Fin 0) (Fin 2 * Math_PI) False,
                  ClosePath, Fill, OnEnd eE]\<rparr>"
    using strokeEnd_dot[of st p rest ps eE] by blast
next
  assume "points st = []"
  then show "strokeEnd ps eE st = emit (OnEnd eE) st" by (rule strokeEnd_no_sample)
next
  show "dotSizeOf ps = (case dotSize ps of
                       DotFunction f \<Rightarrow> f (minWidth ps) (maxWidth ps)
                     | DotNumber d \<Rightarrow> d)"
    by (simp add: dotSizeOf_def)
next
  assume "addCurve ex ps curve st = Some st'"
  then show "\<exists>ops. trace st' = trace st @ BeginPath # ops" by (rule addCurve_trace)
qed

theorem short_stroke_dot_witness:
  "run sample_ext (defaultProps\<lparr>dotSize := DotNumber (Fin 4)\<rparr>)
     (Begin (event_at 1 1 0) # map Update [event_at 2 1 1]) mounted
   = Some \<lparr>points = [Point (Fin 1) (Fin 1) 0, Point (Fin 2) (Fin 1) 1],
       lastVelocity = Fin 0, lastWidth = Fin (3 / 2), isEmpty = True,
       trace = [SetFillStyle ''black'', OnBegin (event_at 1 1 0)]\<rparr>
   \<and> strokeEnd (defaultProps\<lparr>dotSize := DotNumber (Fin 4)\<rparr>) (event_at 3 1 2)
       \<lparr>points = [Point (Fin 1) (Fin 1) 0, Point (Fin 2) (Fin 1) 1],
        lastVelocity = Fin 0, lastWidth = Fin (3 / 2), isEmpty = True,
        trace = [SetFillStyle ''black'', OnBegin (event_at 1 1 0)]\<rparr>
     = \<lparr>points = [Point (Fin 1) (Fin 1) 0, Point (Fin 2) (Fin 1) 1],
        lastVelocity = Fin 0, lastWidth = Fin (3 / 2), isEmpty = False,
        trace = [SetFillStyle ''black'', OnBegin (event_at 1 1 0), BeginPath,
          MoveTo (Fin 1) (Fin 1), Arc (Fin 1) (Fin 1) (Fin 4) (Fin 0) (Fin 2 * Math_PI) False,
          ClosePath, Fill, OnEnd (event_at 3 1 2)]\<rparr>
   \<and> strokeEnd defaultProps (event_at 3 1 2) mounted
     = mounted\<lparr>trace := [OnEnd (event_at 3 1 2)]\<rparr>
   \<and> dotSizeOf defaultProps = Fin (3 / 2)
   \<and> (\<exists>st' ops. addCurve sample_ext defaultProps sample_curve mounted = Some st'
         \<and> trace st' = trace mounted @ BeginPath # ops)"
proof -
  let ?ps = "defaultProps\<lparr>dotSize := DotNumber (Fin 4)\<rparr>"
  let ?st1 = "\<lparr>points = [Point (Fin 1) (Fin 1) 0, Point (Fin 2) (Fin 1) 1],
       lastVelocity = Fin 0, lastWidth = Fin (3 / 2), isEmpty = True,
       trace = [SetFillStyle ''black'', OnBegin (event_at 1 1 0)]\<rparr>"
  have r: "run sample_ext ?ps (Begin (event_at 1 1 0) # map Update [event_at 2 1 1]) mounted
           = Some ?st1"
    by (simp add: strokeBegin_eq strokeUpdate_def addPoint_def reset_def emit_def
        createPoint_def event_at_def Point_def mounted_def defaultProps_def Let_def)
  have l: "length (points ?st1) < 3" by simp
  from short_stroke_dot[of sample_ext ?ps "event_at 1 1 0" "[event_at 2 1 1]" mounted ?st1
      "event_at 3 1 2"] r l
  have e: "strokeEnd ?ps (event_at 3 1 2) ?st1 =
          ?st1\<lparr>isEmpty := False,
              trace := trace ?st1
                @ [BeginPath, MoveTo (pt_x (createPoint (event_at 1 1 0))) (pt_y (createPoint (event_at 1 1 0))),
                   Arc (pt_x (createPoint (event_at 1 1 0))) (pt_y (createPoint (event_at 1 1 0))) (dotSizeOf ?ps)
                     (Fin 0) (Fin 2 * Math_PI) False,
                   ClosePath, Fill, OnEnd (event_at 3 1 2)]\<rparr>"
    by blast
  have n: "strokeEnd defaultProps (event_at 3 1 2) mounted = emit (OnEnd (event_at 3 1 2)) mounted"
    using short_stroke_dot[of sample_ext defaultProps _ _ mounted _ "event_at 3 1 2"]
    by (simp add: mounted_def)
  have d: "dotSizeOf defaultProps = Fin (3 / 2)"
    using short_stroke_dot[of sample_ext defaultProps] by (simp add: defaultProps_def)
  have "bezierLength sample_ext sample_curve \<noteq> PosInfinity"
    by (simp add: sample_ext_def)
  from addCurve_total[OF this, of defaultProps mounted] obtain st' where
    a: "addCurve sample_ext defaultProps sample_curve mounted = Some st'"
    by blast
  with short_stroke_dot[of sample_ext defaultProps _ _ mounted _ _ _ _ sample_curve st']
  have c: "\<exists>st' ops. addCurve sample_ext defaultProps sample_curve mounted = Some st'
         \<and> trace st' = trace mounted @ BeginPath # ops"
    by blast
  from r e n d have "run sample_ext ?ps
       (Begin (event_at 1 1 0) # map Update [event_at 2 1 1]) mounted = Some ?st1
     \<and> strokeEnd ?ps (event_at 3 1 2) ?st1
       = \<lparr>points = [Point (Fin 1) (Fin 1) 0, Point (Fin 2) (Fin 1) 1],
          lastVelocity = Fin 0, lastWidth = Fin (3 / 2), isEmpty = False,
          trace = [SetFillStyle ''black'', OnBegin (event_at 1 1 0), BeginPath,
            MoveTo (Fin 1) (Fin 1), Arc (Fin 1) (Fin 1) (Fin 4) (Fin 0) (Fin 2 * Math_PI) False,
            ClosePath, Fill, OnEnd (event_at 3 1 2)]\<rparr>
     \<and> strokeEnd defaultProps (event_at 3 1 2) mounted
       = mounted\<lparr>trace := [OnEnd (event_at 3 1 2)]\<rparr>
     \<and> dotSizeOf defaultProps = Fin (3 / 2)"
    by (simp add: createPoint_def event_at_def Point_def dotSizeOf_def emit_def mounted_def)
  with c show ?thesis by blast
qed

text \<open>
  C10. A stroke of exactly two samples, a begin, one update and the end: the only drawing
  is one arc around the first sample, the sample of the begin event, and its radius is the
  value of the \<open>dotSize\<close> property itself, not half of it: the result of
  \<open>dotSize(minWidth, maxWidth)\<close> when the property is a function, the number otherwise.
\<close>

theorem two_sample_stroke:
  "run ex ps [Begin e0, Update e1, End eE] st =
     Some ((reset ps st)
       \<lparr>points := [createPoint e0, createPoint e1],
        isEmpty := False,
        trace := trace st
          @ [SetFillStyle (penColor ps), OnBegin e0, BeginPath,
             MoveTo (pt_x (createPoint e0)) (pt_y (createPoint e0)),
             Arc (pt_x (createPoint e0)) (pt_y (createPoint e0))
               (case dotSize ps of
                  DotFunction f \<Rightarrow> f (minWidth ps) (maxWidth ps)
                | DotNumber d \<Rightarrow> d)
               (Fin 0) (Fin 2 * Math_PI) False,
             ClosePath, Fill, OnEnd eE]\<rparr>)"
  by (simp add: strokeBegin_eq strokeUpdate_def addPoint_short emit_points_update
      strokeEnd_dot) (simp add: reset_def emit_def dotSizeOf_def)

end
